theory Spec2Isabelle
  imports Main "HOL-Library.Sublist"
begin

section \<open>The data of FirebaseTest.tsx\<close>

text \<open>
  The component keeps five pieces of React state (lines 24-27 and 126): \<open>status\<close>,
  \<open>message\<close>, \<open>testProjects\<close>, \<open>isLoading\<close> and \<open>realTimeStatus\<close>. The two
  string unions become datatypes; the constructor \<open>rt_idle\<close> is the \<open>"idle"\<close> of
  \<open>realTimeStatus\<close>, renamed because \<open>idle\<close> is taken by \<open>status\<close>.
\<close>

datatype ConnectionStatus = idle | testing | success | error

datatype RealTimeStatus = rt_idle | connected | disconnected

text \<open>
  One element of the \<open>notes\<close> array (the source types it \<open>any[]\<close>; the objects it
  builds have these three fields). The words \<open>note\<close> and \<open>notes\<close> are keywords of
  Isabelle, so the record is \<open>note_item\<close> and the field of a project \<open>notes_arr\<close>.
\<close>

record note_item =
  note_text :: string
  note_status :: string
  note_due :: string

text \<open>
  \<open>interface TestProject\<close> (lines 10-21). The optional fields are options; \<open>id\<close> is
  called \<open>id_opt\<close> because \<open>id\<close> is the identity function of HOL. Dates are
  milliseconds since the epoch.
\<close>

record TestProject =
  id_opt :: "string option"
  name :: string
  location :: string
  pm :: string
  pic :: string
  picRole :: string
  due :: string
  notes_arr :: "note_item list"
  createdAt :: "nat option"
  updatedAt :: "nat option"

text \<open>A document of a query snapshot: \<open>doc.id\<close> and \<open>doc.data()\<close>, the latter read
  at the type the source casts it to.\<close>

record QueryDocumentSnapshot =
  doc_id :: string
  doc_data :: TestProject

text \<open>
  What a \<open>catch (error)\<close> receives: an \<open>Error\<close> object with its \<open>message\<close>, or any
  other thrown value, given by its \<open>String(error)\<close>.
\<close>

datatype thrown = ErrorObject string | OtherValue string

text \<open>\<open>error instanceof Error ? error.message : String(error)\<close>\<close>

fun describe :: "thrown \<Rightarrow> string" where
  "describe (ErrorObject m) = m"
| "describe (OtherValue v) = v"

record ui =
  status :: ConnectionStatus
  message :: string
  testProjects :: "TestProject list"
  isLoading :: bool
  realTimeStatus :: RealTimeStatus

text \<open>The \<open>useState\<close> initial values.\<close>

definition initial :: ui where
  "initial = \<lparr>status = idle, message = [], testProjects = [], isLoading = False,
     realTimeStatus = rt_idle\<rparr>"

section \<open>The external collaborator\<close>

text \<open>
  The Firestore client is imported, not defined, by the component. It is a parameter of
  every function below: a record of operations over a state \<open>'w\<close> of the outside world,
  each returning what the awaited promise settles to (\<open>Inl\<close> the rejection) and the new
  world. \<open>getDocs\<close> stands for the query of lines 36-37, \<open>onSnapshot\<close> for the
  subscription of lines 133-146 (it returns the handle or throws), and
  \<open>unsubscribeHandle h\<close> for a call of the function that \<open>onSnapshot\<close> returned.
\<close>

record 'w firestore =
  getDocs :: "'w \<Rightarrow> (thrown + QueryDocumentSnapshot list) \<times> 'w"
  addDoc :: "TestProject \<Rightarrow> 'w \<Rightarrow> (thrown + string) \<times> 'w"
  deleteDoc :: "string \<Rightarrow> 'w \<Rightarrow> (thrown + unit) \<times> 'w"
  onSnapshot :: "'w \<Rightarrow> (thrown + nat) \<times> 'w"
  unsubscribeHandle :: "nat \<Rightarrow> 'w \<Rightarrow> thrown option \<times> 'w"

datatype call = GetDocs | AddDoc TestProject | DeleteDoc string | OnSnapshot | Unsubscribe nat

section \<open>Setter calls and traces\<close>

text \<open>
  The functions of the component read almost no state; they call setters and the
  collaborator. A run of one of them is the list of these calls in program order, and the
  state it leaves is the state after the setters were applied in that order.
\<close>

datatype event =
    SetStatus ConnectionStatus
  | SetMessage string
  | SetTestProjects "TestProject list"
  | SetIsLoading bool
  | SetRealTimeStatus RealTimeStatus
  | Call call

fun apply_event :: "ui \<Rightarrow> event \<Rightarrow> ui" where
  "apply_event s (SetStatus v) = s\<lparr>status := v\<rparr>"
| "apply_event s (SetMessage v) = s\<lparr>message := v\<rparr>"
| "apply_event s (SetTestProjects v) = s\<lparr>testProjects := v\<rparr>"
| "apply_event s (SetIsLoading v) = s\<lparr>isLoading := v\<rparr>"
| "apply_event s (SetRealTimeStatus v) = s\<lparr>realTimeStatus := v\<rparr>"
| "apply_event s (Call c) = s"

definition run :: "ui \<Rightarrow> event list \<Rightarrow> ui" where
  "run s tr = foldl apply_event s tr"

fun callsOf :: "event list \<Rightarrow> call list" where
  "callsOf [] = []"
| "callsOf (Call c # es) = c # callsOf es"
| "callsOf (e # es) = callsOf es"

fun statusWrites :: "event list \<Rightarrow> ConnectionStatus list" where
  "statusWrites [] = []"
| "statusWrites (SetStatus v # es) = v # statusWrites es"
| "statusWrites (e # es) = statusWrites es"

fun loadingWrites :: "event list \<Rightarrow> bool list" where
  "loadingWrites [] = []"
| "loadingWrites (SetIsLoading v # es) = v # loadingWrites es"
| "loadingWrites (e # es) = loadingWrites es"

fun messagesOf :: "event list \<Rightarrow> string list" where
  "messagesOf [] = []"
| "messagesOf (SetMessage v # es) = v # messagesOf es"
| "messagesOf (e # es) = messagesOf es"

section \<open>Strings\<close>

text \<open>
  Strings are byte lists here. The two emoji of the messages are written as their UTF-8
  bytes; nothing below measures or indexes a message, so the choice of encoding is not
  observable. A number in a template literal is its decimal digits.
\<close>

definition check_mark :: string where
  "check_mark = [CHR 0xE2, CHR 0x9C, CHR 0x85]"

definition cross_mark :: string where
  "cross_mark = [CHR 0xE2, CHR 0x9D, CHR 0x8C]"

definition digit :: "nat \<Rightarrow> char" where
  "digit d = char_of (48 + d)"

function show_nat :: "nat \<Rightarrow> string" where
  "show_nat n = (if n < 10 then [digit n] else show_nat (n div 10) @ [digit (n mod 10)])"
  by pat_completeness auto
termination
  by (relation "measure (\<lambda>n. n)") auto

declare show_nat.simps [simp del]

text \<open>\<open>String.prototype.includes\<close>\<close>

fun includes_str :: "string \<Rightarrow> string \<Rightarrow> bool" where
  "includes_str [] sub = (sub = [])"
| "includes_str (c # cs) sub = (prefix sub (c # cs) \<or> includes_str cs sub)"

section \<open>The functions of the component\<close>

text \<open>\<open>{ id: doc.id, ...doc.data() }\<close> (lines 43-46 and 138-141): the spread comes
  second, so an \<open>id\<close> field of the data replaces \<open>doc.id\<close>.\<close>

definition toTestProject :: "QueryDocumentSnapshot \<Rightarrow> TestProject" where
  "toTestProject d =
     (case id_opt (doc_data d) of
        None \<Rightarrow> (doc_data d)\<lparr>id_opt := Some (doc_id d)\<rparr>
      | Some i \<Rightarrow> doc_data d)"

definition connectedMessage :: "nat \<Rightarrow> string" where
  "connectedMessage n =
     check_mark @ '' Firebase connected! Found '' @ show_nat n @ '' projects in database.''"

definition connectionFailedMessage :: "thrown \<Rightarrow> string" where
  "connectionFailedMessage e = cross_mark @ '' Firebase connection failed: '' @ describe e"

text \<open>\<open>testConnection\<close>, lines 30-54.\<close>

definition testConnection :: "'w firestore \<Rightarrow> 'w \<Rightarrow> event list \<times> 'w" where
  "testConnection fs w =
     (case getDocs fs w of
        (Inr docs, w') \<Rightarrow>
          ([SetStatus testing, SetMessage ''Testing Firebase connection...'', Call GetDocs,
            SetStatus success, SetMessage (connectedMessage (length docs)),
            SetTestProjects (map toTestProject docs)], w')
      | (Inl e, w') \<Rightarrow>
          ([SetStatus testing, SetMessage ''Testing Firebase connection...'', Call GetDocs,
            SetStatus error, SetMessage (connectionFailedMessage e)], w'))"

text \<open>The object literal of lines 62-81; \<open>now\<close> is the value of \<open>Date.now()\<close>.\<close>

definition newTestProject :: "nat \<Rightarrow> TestProject" where
  "newTestProject now =
     \<lparr>id_opt = None,
      name = ''Test Project '' @ show_nat now,
      location = ''Test Location'',
      pm = ''Test PM'',
      pic = ''Test PIC'',
      picRole = ''Test Role'',
      due = ''2026-12-31'',
      notes_arr =
        [\<lparr>note_text = ''Test task 1'', note_status = ''progress'', note_due = ''2026-12-31''\<rparr>,
         \<lparr>note_text = ''Test task 2'', note_status = ''done'', note_due = ''2026-12-30''\<rparr>],
      createdAt = None,
      updatedAt = None\<rparr>"

text \<open>The object given to \<open>addDoc\<close>, lines 83-87; \<open>c\<close> and \<open>u\<close> are the two
  \<open>new Date()\<close>.\<close>

definition newDocument :: "nat \<Rightarrow> nat \<Rightarrow> nat \<Rightarrow> TestProject" where
  "newDocument now c u = (newTestProject now)\<lparr>createdAt := Some c, updatedAt := Some u\<rparr>"

definition addedMessage :: "string \<Rightarrow> string" where
  "addedMessage i = check_mark @ '' Test project added! ID: '' @ i"

definition addFailedMessage :: "thrown \<Rightarrow> string" where
  "addFailedMessage e = cross_mark @ '' Failed to add test project: '' @ describe e"

text \<open>
  \<open>addTestData\<close>, lines 57-98. \<open>now\<close>, \<open>c\<close> and \<open>u\<close> are the three readings of the
  clock. \<open>testConnection\<close> catches everything it awaits, so the \<open>catch\<close> of this
  function is reached from \<open>addDoc\<close> only; the \<open>finally\<close> block closes both paths.
\<close>

definition addTestData ::
  "'w firestore \<Rightarrow> nat \<Rightarrow> nat \<Rightarrow> nat \<Rightarrow> 'w \<Rightarrow> event list \<times> 'w" where
  "addTestData fs now c u w =
     (case addDoc fs (newDocument now c u) w of
        (Inr i, w1) \<Rightarrow>
          (case testConnection fs w1 of
             (tr, w2) \<Rightarrow>
               ([SetIsLoading True, SetMessage ''Adding test project...'',
                 Call (AddDoc (newDocument now c u)), SetMessage (addedMessage i)] @ tr @
                [SetIsLoading False], w2))
      | (Inl e, w1) \<Rightarrow>
          ([SetIsLoading True, SetMessage ''Adding test project...'',
            Call (AddDoc (newDocument now c u)), SetMessage (addFailedMessage e),
            SetIsLoading False], w1))"

definition clearedMessage :: "nat \<Rightarrow> string" where
  "clearedMessage n = check_mark @ '' Cleared '' @ show_nat n @ '' test projects''"

definition clearFailedMessage :: "thrown \<Rightarrow> string" where
  "clearFailedMessage e = cross_mark @ '' Failed to clear test data: '' @ describe e"

text \<open>
  The loop of lines 108-112. \<open>if (project.id)\<close> is false for an absent identifier and
  for the empty string. The result is the error that left the loop, if any, with the
  calls made and the world they leave.
\<close>

fun deleteEach ::
  "'w firestore \<Rightarrow> TestProject list \<Rightarrow> 'w \<Rightarrow> thrown option \<times> event list \<times> 'w" where
  "deleteEach fs [] w = (None, [], w)"
| "deleteEach fs (p # ps) w =
     (case id_opt p of
        None \<Rightarrow> deleteEach fs ps w
      | Some i \<Rightarrow>
          if i = [] then deleteEach fs ps w
          else
            (case deleteDoc fs i w of
               (Inl e, w1) \<Rightarrow> (Some e, [Call (DeleteDoc i)], w1)
             | (Inr x, w1) \<Rightarrow>
                 (case deleteEach fs ps w1 of
                    (r, tr, w2) \<Rightarrow> (r, Call (DeleteDoc i) # tr, w2))))"

text \<open>Line 106.\<close>

definition projectsToDelete :: "ui \<Rightarrow> TestProject list" where
  "projectsToDelete s = filter (\<lambda>p. includes_str (name p) ''Test Project'') (testProjects s)"

text \<open>
  \<open>clearTestData\<close>, lines 101-123. It is the one function that reads state:
  \<open>testProjects\<close>, as the render that created the handler saw it.
\<close>

definition clearTestData :: "'w firestore \<Rightarrow> ui \<Rightarrow> 'w \<Rightarrow> event list \<times> 'w" where
  "clearTestData fs s w =
     (case deleteEach fs (projectsToDelete s) w of
        (None, dels, w1) \<Rightarrow>
          (case testConnection fs w1 of
             (tr, w2) \<Rightarrow>
               ([SetIsLoading True, SetMessage ''Clearing test data...''] @ dels @
                [SetMessage (clearedMessage (length (projectsToDelete s)))] @ tr @
                [SetIsLoading False], w2))
      | (Some e, dels, w1) \<Rightarrow>
          ([SetIsLoading True, SetMessage ''Clearing test data...''] @ dels @
           [SetMessage (clearFailedMessage e), SetIsLoading False], w1))"

text \<open>
  The identifiers the loop passes to \<open>deleteDoc\<close> when nothing fails, and the same
  deletions made from a list of identifiers; they serve to state which deletion fails.
\<close>

fun idsOf :: "TestProject list \<Rightarrow> string list" where
  "idsOf [] = []"
| "idsOf (p # ps) =
     (case id_opt p of
        None \<Rightarrow> idsOf ps
      | Some i \<Rightarrow> if i = [] then idsOf ps else i # idsOf ps)"

fun deleteIds ::
  "'w firestore \<Rightarrow> string list \<Rightarrow> 'w \<Rightarrow> thrown option \<times> event list \<times> 'w" where
  "deleteIds fs [] w = (None, [], w)"
| "deleteIds fs (i # js) w =
     (case deleteDoc fs i w of
        (Inl e, w1) \<Rightarrow> (Some e, [Call (DeleteDoc i)], w1)
      | (Inr x, w1) \<Rightarrow>
          (case deleteIds fs js w1 of
             (r, tr, w2) \<Rightarrow> (r, Call (DeleteDoc i) # tr, w2)))"

subsection \<open>The subscription effect\<close>

text \<open>
  \<open>testRealTime\<close>, lines 131-152. The result is the value of the variable
  \<open>unsubscribe\<close> afterwards (\<open>None\<close> for \<open>undefined\<close>), the events and the world.
\<close>

definition testRealTime :: "'w firestore \<Rightarrow> 'w \<Rightarrow> nat option \<times> event list \<times> 'w" where
  "testRealTime fs w =
     (case onSnapshot fs w of
        (Inr h, w1) \<Rightarrow> (Some h, [Call OnSnapshot], w1)
      | (Inl e, w1) \<Rightarrow> (None, [Call OnSnapshot, SetRealTimeStatus disconnected], w1))"

text \<open>The body of the effect, lines 129-157.\<close>

definition effect :: "'w firestore \<Rightarrow> ui \<Rightarrow> 'w \<Rightarrow> nat option \<times> event list \<times> 'w" where
  "effect fs s w = (if status s = success then testRealTime fs w else (None, [], w))"

text \<open>
  The function the effect returns, lines 159-163, called with the variable
  \<open>unsubscribe\<close> of its closure. The first component is what the call throws, if
  anything.
\<close>

definition cleanup ::
  "'w firestore \<Rightarrow> nat option \<Rightarrow> 'w \<Rightarrow> thrown option \<times> event list \<times> 'w" where
  "cleanup fs unsubscribe w =
     (case unsubscribe of
        None \<Rightarrow> (None, [], w)
      | Some h \<Rightarrow>
          (case unsubscribeHandle fs h w of
             (r, w1) \<Rightarrow> (r, [Call (Unsubscribe h)], w1)))"

text \<open>
  The same function called twice in a row. It never assigns \<open>unsubscribe\<close>, so the second
  call sees the value the first one saw. The result holds what each call throws.
\<close>

definition cleanupTwice ::
  "'w firestore \<Rightarrow> nat option \<Rightarrow> 'w \<Rightarrow> thrown option \<times> thrown option \<times> event list \<times> 'w" where
  "cleanupTwice fs unsubscribe w =
     (case cleanup fs unsubscribe w of
        (r1, tr1, w1) \<Rightarrow>
          (case cleanup fs unsubscribe w1 of
             (r2, tr2, w2) \<Rightarrow> (r1, r2, tr1 @ tr2, w2)))"

text \<open>The two callbacks given to \<open>onSnapshot\<close>, lines 136-146.\<close>

datatype listen_event = Snapshot "QueryDocumentSnapshot list" | ListenError thrown

fun deliver :: "listen_event \<Rightarrow> event list" where
  "deliver (Snapshot docs) =
     [SetRealTimeStatus connected, SetTestProjects (map toTestProject docs)]"
| "deliver (ListenError e) = [SetRealTimeStatus disconnected]"

text \<open>The states seen while a list of subscription events is delivered, the first being
  the state before any of them.\<close>

fun observe :: "ui \<Rightarrow> listen_event list \<Rightarrow> ui list" where
  "observe s [] = [s]"
| "observe s (ev # evs) = s # observe (run s (deliver ev)) evs"

subsection \<open>The buttons\<close>

text \<open>The \<open>disabled\<close> attributes of lines 189, 197 and 205.\<close>

definition testDisabled :: "ui \<Rightarrow> bool" where
  "testDisabled s = (status s = testing)"

definition addDisabled :: "ui \<Rightarrow> bool" where
  "addDisabled s = (status s \<noteq> success \<or> isLoading s)"

definition clearDisabled :: "ui \<Rightarrow> bool" where
  "clearDisabled s = (status s \<noteq> success \<or> isLoading s \<or> length (testProjects s) = 0)"

text \<open>
  Modelled from the spec: the \<open>Button\<close> component is imported from
  \<open>@/components/ui/button\<close>, which is not among the sources. The spec calls a
  command whose button is disabled "only enabled in the UI sense" and its invocation
  "a no-op (guard condition fails)": a disabled button does not call \<open>onClick\<close>.
\<close>

definition Button :: "bool \<Rightarrow> ('w \<Rightarrow> event list \<times> 'w) \<Rightarrow> 'w \<Rightarrow> event list \<times> 'w" where
  "Button disabled onClick w = (if disabled then ([], w) else onClick w)"

text \<open>The three buttons of lines 187-209, in a render of the state \<open>s\<close>.\<close>

definition clickTestConnection :: "'w firestore \<Rightarrow> ui \<Rightarrow> 'w \<Rightarrow> event list \<times> 'w" where
  "clickTestConnection fs s w = Button (testDisabled s) (testConnection fs) w"

definition clickAddTestData ::
  "'w firestore \<Rightarrow> nat \<Rightarrow> nat \<Rightarrow> nat \<Rightarrow> ui \<Rightarrow> 'w \<Rightarrow> event list \<times> 'w" where
  "clickAddTestData fs now c u s w = Button (addDisabled s) (addTestData fs now c u) w"

definition clickClearTestData :: "'w firestore \<Rightarrow> ui \<Rightarrow> 'w \<Rightarrow> event list \<times> 'w" where
  "clickClearTestData fs s w = Button (clearDisabled s) (clearTestData fs s) w"

section \<open>A collaborator to run the component against\<close>

text \<open>
  The theorems below hold for every collaborator. To run the component on concrete
  inputs, here is one: an in-memory document store. Its state holds the stored
  documents, newest first; whether the service can be reached; the identifiers whose
  deletion is refused; and a counter for fresh identifiers and handles.
\<close>

record store =
  stored :: "QueryDocumentSnapshot list"
  offline :: bool
  denied :: "string list"
  nextId :: nat

definition memory :: "store firestore" where
  "memory =
     \<lparr>getDocs = (\<lambda>w. if offline w then (Inl (ErrorObject ''unavailable''), w)
                      else (Inr (stored w), w)),
      addDoc = (\<lambda>p w. if offline w then (Inl (ErrorObject ''unavailable''), w)
                       else (Inr (''doc'' @ show_nat (nextId w)),
                             w\<lparr>stored := \<lparr>doc_id = ''doc'' @ show_nat (nextId w), doc_data = p\<rparr> # stored w,
                               nextId := Suc (nextId w)\<rparr>)),
      deleteDoc = (\<lambda>i w. if i \<in> set (denied w) then (Inl (ErrorObject ''permission-denied''), w)
                          else (Inr (), w\<lparr>stored := filter (\<lambda>d. doc_id d \<noteq> i) (stored w)\<rparr>)),
      onSnapshot = (\<lambda>w. if offline w then (Inl (OtherValue ''offline''), w)
                         else (Inr (nextId w), w\<lparr>nextId := Suc (nextId w)\<rparr>)),
      unsubscribeHandle = (\<lambda>h w. (None, w))\<rparr>"

text \<open>A stored sample project, and one that is not a sample.\<close>

definition sample :: "string \<Rightarrow> nat \<Rightarrow> QueryDocumentSnapshot" where
  "sample i n = \<lparr>doc_id = i, doc_data = newTestProject n\<rparr>"

definition other :: "string \<Rightarrow> QueryDocumentSnapshot" where
  "other i = \<lparr>doc_id = i, doc_data = (newTestProject 0)\<lparr>name := ''Harbour bridge''\<rparr>\<rparr>"

definition store0 :: store where
  "store0 = \<lparr>stored = [], offline = False, denied = [], nextId = 0\<rparr>"

text \<open>A state after a successful probe that found one sample.\<close>

definition ready :: ui where
  "ready = initial\<lparr>status := success, testProjects := [toTestProject (sample ''a'' 5)]\<rparr>"

text \<open>
  Three samples and another project, loaded, in a store that refuses to delete the
  second sample.
\<close>

definition three :: ui where
  "three = initial\<lparr>status := success,
     testProjects := map toTestProject [sample ''a'' 5, other ''b'', sample ''c'' 6, sample ''d'' 7]\<rparr>"

definition store3 :: store where
  "store3 = store0\<lparr>stored := [sample ''a'' 5, other ''b'', sample ''c'' 6, sample ''d'' 7],
     denied := [''c'']\<rparr>"

text \<open>A stored sample whose data has an \<open>id\<close> field of its own, the empty string, and the
  state after a probe that found it.\<close>

definition unkeyed :: QueryDocumentSnapshot where
  "unkeyed = \<lparr>doc_id = ''k'', doc_data = (newTestProject 5)\<lparr>id_opt := Some []\<rparr>\<rparr>"

definition unkeyedState :: ui where
  "unkeyedState = initial\<lparr>status := success, testProjects := [toTestProject unkeyed]\<rparr>"

section \<open>Facts about strings\<close>

lemma includes_iff: "includes_str s sub \<longleftrightarrow> (\<exists>ps ss. s = ps @ sub @ ss)"
proof (induction s)
  case Nil
  then show ?case by auto
next
  case (Cons c cs)
  show ?case
  proof
    assume "includes_str (c # cs) sub"
    then consider "prefix sub (c # cs)" | "includes_str cs sub" by auto
    then show "\<exists>ps ss. c # cs = ps @ sub @ ss"
    proof cases
      case 1
      then obtain ss where "c # cs = sub @ ss" by (auto simp: prefix_def)
      then have "c # cs = [] @ sub @ ss" by simp
      then show ?thesis by blast
    next
      case 2
      with Cons.IH obtain ps ss where "cs = ps @ sub @ ss" by blast
      then have "c # cs = (c # ps) @ sub @ ss" by simp
      then show ?thesis by blast
    qed
  next
    assume "\<exists>ps ss. c # cs = ps @ sub @ ss"
    then obtain ps ss where eq: "c # cs = ps @ sub @ ss" by blast
    show "includes_str (c # cs) sub"
    proof (cases ps)
      case Nil
      with eq have "prefix sub (c # cs)" by (simp add: prefix_def)
      then show ?thesis by simp
    next
      case (Cons p ps')
      with eq have "cs = ps' @ sub @ ss" by simp
      with Cons.IH have "includes_str cs sub" by blast
      then show ?thesis by simp
    qed
  qed
qed

lemma includes_middle: "includes_str (a @ b @ c) b"
  by (auto simp: includes_iff)

lemma includes_end: "includes_str (a @ b) b"
  using includes_middle [of a b "[]"] by simp

lemma includes_last: "includes_str (a @ b @ c) c"
  using includes_end [of "a @ b" c] by simp

lemma includes_between: "includes_str (a @ b @ c @ d) c"
  using includes_middle [of "a @ b" c d] by simp

lemma show_nat_0: "show_nat 0 = ''0''" by code_simp
lemma show_nat_2026: "show_nat 2026 = ''2026''" by code_simp

lemma connectedMessage_includes: "includes_str (connectedMessage n) (show_nat n)"
  unfolding connectedMessage_def by (rule includes_between)

lemma connectionFailedMessage_includes: "includes_str (connectionFailedMessage e) (describe e)"
  unfolding connectionFailedMessage_def by (rule includes_last)

lemma show_nat_Suc_Suc_0: "show_nat (Suc (Suc 0)) = ''2''" by code_simp

section \<open>Traces\<close>

lemma run_Nil [simp]: "run s [] = s" by (simp add: run_def)
lemma run_Cons [simp]: "run s (e # es) = run (apply_event s e) es" by (simp add: run_def)
lemma run_append [simp]: "run s (xs @ ys) = run (run s xs) ys" by (simp add: run_def)

section \<open>The connection prober\<close>

text \<open>
  C1. Every run of \<open>testConnection\<close> begins by setting the status to \<open>testing\<close> and the
  message to the in-progress text, and only then reads the collection, once. If the read
  succeeds, the status ends as \<open>success\<close>, the projects are exactly the returned documents
  (each mapped by \<open>toTestProject\<close>) and the message contains their number. If it fails,
  the status ends as \<open>error\<close>, the projects are what they were and the message contains the
  description of the failure.
\<close>

theorem testConnection_outcome:
  "testConnection fs w = (tr, w') \<Longrightarrow>
     take 3 tr = [SetStatus testing, SetMessage ''Testing Firebase connection...'', Call GetDocs] \<and>
     status (run s (take 2 tr)) = testing \<and>
     message (run s (take 2 tr)) = ''Testing Firebase connection...'' \<and>
     testProjects (run s (take 2 tr)) = testProjects s \<and>
     callsOf tr = [GetDocs] \<and>
     w' = snd (getDocs fs w) \<and>
     (\<forall>docs. fst (getDocs fs w) = Inr docs \<longrightarrow>
        status (run s tr) = success \<and>
        testProjects (run s tr) = map toTestProject docs \<and>
        message (run s tr) = connectedMessage (length docs) \<and>
        includes_str (message (run s tr)) (show_nat (length docs))) \<and>
     (\<forall>e. fst (getDocs fs w) = Inl e \<longrightarrow>
        status (run s tr) = error \<and>
        testProjects (run s tr) = testProjects s \<and>
        message (run s tr) = connectionFailedMessage e \<and>
        includes_str (message (run s tr)) (describe e))"
  by (auto simp: testConnection_def connectedMessage_includes connectionFailedMessage_includes
      split: prod.splits sum.splits)

text \<open>The prober run against a store of two documents, and against one that cannot be
  reached.\<close>

theorem testConnection_outcome_witness:
  "status (run initial (fst (testConnection memory (store0\<lparr>stored := [sample ''a'' 5, other ''b'']\<rparr>)))) = success \<and>
   testProjects (run initial (fst (testConnection memory (store0\<lparr>stored := [sample ''a'' 5, other ''b'']\<rparr>))))
     = [toTestProject (sample ''a'' 5), toTestProject (other ''b'')] \<and>
   includes_str (message (run initial (fst (testConnection memory (store0\<lparr>stored := [sample ''a'' 5, other ''b'']\<rparr>))))) ''2'' \<and>
   status (run initial (fst (testConnection memory (store0\<lparr>offline := True\<rparr>)))) = error \<and>
   testProjects (run initial (fst (testConnection memory (store0\<lparr>offline := True\<rparr>)))) = testProjects initial \<and>
   includes_str (message (run initial (fst (testConnection memory (store0\<lparr>offline := True\<rparr>))))) ''unavailable''"
proof -
  have up: "fst (getDocs memory (store0\<lparr>stored := [sample ''a'' 5, other ''b'']\<rparr>))
      = Inr [sample ''a'' 5, other ''b'']"
    by (simp add: memory_def store0_def)
  have down: "fst (getDocs memory (store0\<lparr>offline := True\<rparr>)) = Inl (ErrorObject ''unavailable'')"
    by (simp add: memory_def store0_def)
  have A: "status (run initial (fst (testConnection memory (store0\<lparr>stored := [sample ''a'' 5, other ''b'']\<rparr>)))) = success \<and>
      testProjects (run initial (fst (testConnection memory (store0\<lparr>stored := [sample ''a'' 5, other ''b'']\<rparr>))))
        = map toTestProject [sample ''a'' 5, other ''b''] \<and>
      includes_str (message (run initial (fst (testConnection memory (store0\<lparr>stored := [sample ''a'' 5, other ''b'']\<rparr>)))))
        (show_nat (length [sample ''a'' 5, other ''b'']))"
    using testConnection_outcome [OF surjective_pairing, of memory
        "store0\<lparr>stored := [sample ''a'' 5, other ''b'']\<rparr>" initial] up
    by blast
  have B: "status (run initial (fst (testConnection memory (store0\<lparr>offline := True\<rparr>)))) = error \<and>
      testProjects (run initial (fst (testConnection memory (store0\<lparr>offline := True\<rparr>)))) = testProjects initial \<and>
      includes_str (message (run initial (fst (testConnection memory (store0\<lparr>offline := True\<rparr>)))))
        (describe (ErrorObject ''unavailable''))"
    using testConnection_outcome [OF surjective_pairing, of memory "store0\<lparr>offline := True\<rparr>" initial] down
    by blast
  show ?thesis
    using A B by (simp add: show_nat_Suc_Suc_0 del: includes_str.simps)
qed

section \<open>Projections of a trace\<close>

lemma callsOf_append [simp]: "callsOf (xs @ ys) = callsOf xs @ callsOf ys"
  by (induction xs rule: callsOf.induct) simp_all

lemma statusWrites_append [simp]: "statusWrites (xs @ ys) = statusWrites xs @ statusWrites ys"
  by (induction xs rule: statusWrites.induct) simp_all

lemma loadingWrites_append [simp]: "loadingWrites (xs @ ys) = loadingWrites xs @ loadingWrites ys"
  by (induction xs rule: loadingWrites.induct) simp_all

lemma messagesOf_append [simp]: "messagesOf (xs @ ys) = messagesOf xs @ messagesOf ys"
  by (induction xs rule: messagesOf.induct) simp_all

text \<open>What a run of the prober writes besides the status.\<close>

lemma testConnection_loading:
  "loadingWrites (fst (testConnection fs w)) = [] \<and>
   isLoading (run s (fst (testConnection fs w))) = isLoading s"
  by (simp add: testConnection_def split: prod.splits sum.splits)

lemma testConnection_calls: "callsOf (fst (testConnection fs w)) = [GetDocs]"
  by (simp add: testConnection_def split: prod.splits sum.splits)

text \<open>The deletion loop makes calls and nothing else.\<close>

lemma deleteEach_only_calls:
  "deleteEach fs ps w = (r, tr, w') \<Longrightarrow> tr = map Call (callsOf tr)"
  by (induction ps arbitrary: w r tr w')
    (auto split: option.splits if_splits prod.splits sum.splits)

lemma run_calls [simp]: "run s (map Call cs) = s"
  by (induction cs) simp_all

lemma statusWrites_calls [simp]: "statusWrites (map Call cs) = []"
  by (induction cs) simp_all

lemma loadingWrites_calls [simp]: "loadingWrites (map Call cs) = []"
  by (induction cs) simp_all

lemma messagesOf_calls [simp]: "messagesOf (map Call cs) = []"
  by (induction cs) simp_all

lemma callsOf_calls [simp]: "callsOf (map Call cs) = cs"
  by (induction cs) simp_all

section \<open>The insert command\<close>

text \<open>
  C2. In every state whose status is not \<open>success\<close> (\<open>testing\<close> among them) the insert
  button is disabled, and a click on it is a no-op: the trace is empty, so no insert
  reaches the collaborator, the world is the same and no piece of state (message, busy
  flag, projects, status) changes. The guard is the \<open>disabled\<close> attribute of line 197.
\<close>

theorem insert_disabled_noop:
  "status s \<noteq> success \<Longrightarrow>
     addDisabled s \<and>
     clickAddTestData fs now c u s w = ([], w) \<and>
     callsOf (fst (clickAddTestData fs now c u s w)) = [] \<and>
     run s (fst (clickAddTestData fs now c u s w)) = s"
  by (simp add: addDisabled_def clickAddTestData_def Button_def)

text \<open>A click on the button while a probe is in flight.\<close>

theorem insert_disabled_noop_witness:
  "status (initial\<lparr>status := testing\<rparr>) \<noteq> success \<and>
   clickAddTestData memory 17 18 19 (initial\<lparr>status := testing\<rparr>) store0 = ([], store0) \<and>
   run (initial\<lparr>status := testing\<rparr>)
     (fst (clickAddTestData memory 17 18 19 (initial\<lparr>status := testing\<rparr>) store0))
     = initial\<lparr>status := testing\<rparr>"
proof -
  have h: "status (initial\<lparr>status := testing\<rparr>) \<noteq> success" by simp
  show ?thesis
    using h insert_disabled_noop [OF h, of memory 17 18 19 store0] by simp
qed

text \<open>The handler itself holds no guard: whenever it is called, it submits the insert.\<close>

lemma addTestData_unguarded:
  "callsOf (fst (addTestData fs now c u w)) \<noteq> [] \<and>
   hd (callsOf (fst (addTestData fs now c u w))) = AddDoc (newDocument now c u)"
  by (simp add: addTestData_def split: prod.splits sum.splits)

section \<open>The two commands, path by path\<close>

lemma addTestData_success:
  "addDoc fs (newDocument now c u) w = (Inr i, w1) \<Longrightarrow>
     addTestData fs now c u w =
       ([SetIsLoading True, SetMessage ''Adding test project...'',
         Call (AddDoc (newDocument now c u)), SetMessage (addedMessage i)] @
        fst (testConnection fs w1) @ [SetIsLoading False], snd (testConnection fs w1))"
  by (simp add: addTestData_def case_prod_beta)

lemma addTestData_failure:
  "addDoc fs (newDocument now c u) w = (Inl e, w1) \<Longrightarrow>
     addTestData fs now c u w =
       ([SetIsLoading True, SetMessage ''Adding test project...'',
         Call (AddDoc (newDocument now c u)), SetMessage (addFailedMessage e),
         SetIsLoading False], w1)"
  by (simp add: addTestData_def)

lemma clearTestData_success:
  "deleteEach fs (projectsToDelete s) w = (None, dels, w1) \<Longrightarrow>
     clearTestData fs s w =
       ([SetIsLoading True, SetMessage ''Clearing test data...''] @ dels @
        [SetMessage (clearedMessage (length (projectsToDelete s)))] @
        fst (testConnection fs w1) @ [SetIsLoading False], snd (testConnection fs w1))"
  by (simp add: clearTestData_def case_prod_beta)

lemma clearTestData_failure:
  "deleteEach fs (projectsToDelete s) w = (Some e, dels, w1) \<Longrightarrow>
     clearTestData fs s w =
       ([SetIsLoading True, SetMessage ''Clearing test data...''] @ dels @
        [SetMessage (clearFailedMessage e), SetIsLoading False], w1)"
  by (simp add: clearTestData_def)

lemma addTestData_busy:
  "hd (fst (addTestData fs now c u w)) = SetIsLoading True \<and>
   last (fst (addTestData fs now c u w)) = SetIsLoading False \<and>
   loadingWrites (fst (addTestData fs now c u w)) = [True, False] \<and>
   isLoading (run s (fst (addTestData fs now c u w))) = False"
proof (cases "addDoc fs (newDocument now c u) w")
  case (Pair r w1)
  show ?thesis
  proof (cases r)
    case (Inl e)
    with Pair show ?thesis by (simp add: addTestData_failure)
  next
    case (Inr i)
    with Pair show ?thesis by (simp add: addTestData_success testConnection_loading)
  qed
qed

lemma clearTestData_busy:
  "hd (fst (clearTestData fs s w)) = SetIsLoading True \<and>
   last (fst (clearTestData fs s w)) = SetIsLoading False \<and>
   loadingWrites (fst (clearTestData fs s w)) = [True, False] \<and>
   isLoading (run t (fst (clearTestData fs s w))) = False"
proof (cases "deleteEach fs (projectsToDelete s) w")
  case (fields r dels w1)
  then have dels: "dels = map Call (callsOf dels)" by (rule deleteEach_only_calls)
  show ?thesis
  proof (cases r)
    case None
    with fields have "clearTestData fs s w =
       ([SetIsLoading True, SetMessage ''Clearing test data...''] @ map Call (callsOf dels) @
        [SetMessage (clearedMessage (length (projectsToDelete s)))] @
        fst (testConnection fs w1) @ [SetIsLoading False], snd (testConnection fs w1))"
      using clearTestData_success dels by metis
    then show ?thesis by (simp add: testConnection_loading)
  next
    case (Some e)
    with fields have "clearTestData fs s w =
       ([SetIsLoading True, SetMessage ''Clearing test data...''] @ map Call (callsOf dels) @
        [SetMessage (clearFailedMessage e), SetIsLoading False], w1)"
      using clearTestData_failure dels by metis
    then show ?thesis by simp
  qed
qed

lemma run_no_loading: "loadingWrites xs = [] \<Longrightarrow> isLoading (run s xs) = isLoading s"
  by (induction xs arbitrary: s rule: loadingWrites.induct) simp_all

lemma take_no_loading: "loadingWrites xs = [] \<Longrightarrow> loadingWrites (take k xs) = []"
  by (induction xs arbitrary: k rule: loadingWrites.induct) (simp_all add: take_Cons')

lemma busy_between:
  assumes "tr = SetIsLoading True # mid @ [SetIsLoading False]"
    and "loadingWrites mid = []" and "0 < n" and "n < length tr"
  shows "isLoading (run s (take n tr))"
proof -
  from assms(3) obtain k where n: "n = Suc k" by (cases n) auto
  with assms(1,4) have "k \<le> length mid" by simp
  with assms(1) n have "take n tr = SetIsLoading True # take k mid" by simp
  moreover have "loadingWrites (take k mid) = []" using assms(2) by (rule take_no_loading)
  ultimately show ?thesis by (simp add: run_no_loading)
qed

lemma addTestData_shape:
  "\<exists>mid. fst (addTestData fs now c u w) = SetIsLoading True # mid @ [SetIsLoading False] \<and>
     loadingWrites mid = []"
proof (cases "addDoc fs (newDocument now c u) w")
  case (Pair r w1)
  show ?thesis
  proof (cases r)
    case (Inl e)
    with Pair have "fst (addTestData fs now c u w) =
        SetIsLoading True # [SetMessage ''Adding test project...'',
          Call (AddDoc (newDocument now c u)), SetMessage (addFailedMessage e)] @ [SetIsLoading False]"
      by (simp add: addTestData_failure)
    moreover have "loadingWrites [SetMessage ''Adding test project...'',
          Call (AddDoc (newDocument now c u)), SetMessage (addFailedMessage e)] = []" by simp
    ultimately show ?thesis by blast
  next
    case (Inr i)
    with Pair have "fst (addTestData fs now c u w) =
        SetIsLoading True # ([SetMessage ''Adding test project...'',
          Call (AddDoc (newDocument now c u)), SetMessage (addedMessage i)] @
          fst (testConnection fs w1)) @ [SetIsLoading False]"
      by (simp add: addTestData_success)
    moreover have "loadingWrites ([SetMessage ''Adding test project...'',
          Call (AddDoc (newDocument now c u)), SetMessage (addedMessage i)] @
          fst (testConnection fs w1)) = []"
      by (simp add: testConnection_loading)
    ultimately show ?thesis by blast
  qed
qed

lemma clearTestData_shape:
  "\<exists>mid. fst (clearTestData fs s w) = SetIsLoading True # mid @ [SetIsLoading False] \<and>
     loadingWrites mid = []"
proof (cases "deleteEach fs (projectsToDelete s) w")
  case (fields r dels w1)
  then have dels: "dels = map Call (callsOf dels)" by (rule deleteEach_only_calls)
  then have nl: "loadingWrites dels = []" by (metis loadingWrites_calls)
  show ?thesis
  proof (cases r)
    case None
    with fields have "fst (clearTestData fs s w) =
       SetIsLoading True # ([SetMessage ''Clearing test data...''] @ dels @
        [SetMessage (clearedMessage (length (projectsToDelete s)))] @
        fst (testConnection fs w1)) @ [SetIsLoading False]"
      by (simp add: clearTestData_success)
    moreover have "loadingWrites ([SetMessage ''Clearing test data...''] @ dels @
        [SetMessage (clearedMessage (length (projectsToDelete s)))] @
        fst (testConnection fs w1)) = []"
      by (simp add: nl testConnection_loading)
    ultimately show ?thesis by blast
  next
    case (Some e)
    with fields have "fst (clearTestData fs s w) =
       SetIsLoading True # ([SetMessage ''Clearing test data...''] @ dels @
        [SetMessage (clearFailedMessage e)]) @ [SetIsLoading False]"
      by (simp add: clearTestData_failure)
    moreover have "loadingWrites ([SetMessage ''Clearing test data...''] @ dels @
        [SetMessage (clearFailedMessage e)]) = []"
      by (simp add: nl)
    ultimately show ?thesis by blast
  qed
qed

section \<open>The busy flag\<close>

text \<open>
  C9. Every run of \<open>addTestData\<close> and of \<open>clearTestData\<close>, whether it succeeds or fails,
  writes \<open>isLoading\<close> exactly twice: \<open>True\<close> as its first step and \<open>False\<close> as its last.
  The flag is therefore set at every point in between and clear at the end. While it is
  set, both command buttons are disabled.
\<close>

theorem busy_flag:
  "hd (fst (addTestData fs now c u w)) = SetIsLoading True \<and>
   last (fst (addTestData fs now c u w)) = SetIsLoading False \<and>
   loadingWrites (fst (addTestData fs now c u w)) = [True, False] \<and>
   (\<forall>n. 0 < n \<and> n < length (fst (addTestData fs now c u w)) \<longrightarrow>
      isLoading (run s (take n (fst (addTestData fs now c u w))))) \<and>
   isLoading (run s (fst (addTestData fs now c u w))) = False \<and>
   hd (fst (clearTestData fs s w)) = SetIsLoading True \<and>
   last (fst (clearTestData fs s w)) = SetIsLoading False \<and>
   loadingWrites (fst (clearTestData fs s w)) = [True, False] \<and>
   (\<forall>n. 0 < n \<and> n < length (fst (clearTestData fs s w)) \<longrightarrow>
      isLoading (run s (take n (fst (clearTestData fs s w))))) \<and>
   isLoading (run s (fst (clearTestData fs s w))) = False \<and>
   (isLoading s \<longrightarrow> addDisabled s \<and> clearDisabled s)"
proof -
  obtain m1 where m1: "fst (addTestData fs now c u w) = SetIsLoading True # m1 @ [SetIsLoading False]"
    "loadingWrites m1 = []"
    using addTestData_shape [of fs now c u w] by auto
  obtain m2 where m2: "fst (clearTestData fs s w) = SetIsLoading True # m2 @ [SetIsLoading False]"
    "loadingWrites m2 = []"
    using clearTestData_shape [of fs s w] by auto
  have a: "\<forall>n. 0 < n \<and> n < length (fst (addTestData fs now c u w)) \<longrightarrow>
      isLoading (run s (take n (fst (addTestData fs now c u w))))"
    using busy_between [OF m1] by blast
  have b: "\<forall>n. 0 < n \<and> n < length (fst (clearTestData fs s w)) \<longrightarrow>
      isLoading (run s (take n (fst (clearTestData fs s w))))"
    using busy_between [OF m2] by blast
  have c: "isLoading s \<longrightarrow> addDisabled s \<and> clearDisabled s"
    by (simp add: addDisabled_def clearDisabled_def)
  show ?thesis
    using addTestData_busy [of fs now c u w s] clearTestData_busy [of fs s w s] a b c
    by blast
qed

text \<open>Both commands run against the store; the flag after the first step and at the
  end, and the buttons of a busy state.\<close>

theorem busy_flag_witness:
  "isLoading (run ready (take 1 (fst (addTestData memory 17 18 19 store0)))) \<and>
   isLoading (run ready (fst (addTestData memory 17 18 19 store0))) = False \<and>
   isLoading (run ready (take 1 (fst (clearTestData memory ready store0)))) \<and>
   isLoading (run ready (fst (clearTestData memory ready store0))) = False \<and>
   addDisabled (ready\<lparr>isLoading := True\<rparr>) \<and> clearDisabled (ready\<lparr>isLoading := True\<rparr>)"
proof -
  have n1: "0 < (1::nat) \<and> 1 < length (fst (addTestData memory 17 18 19 store0))"
    by (simp add: addTestData_def memory_def store0_def testConnection_def)
  have n2: "0 < (1::nat) \<and> 1 < length (fst (clearTestData memory ready store0))"
    by (simp add: clearTestData_def projectsToDelete_def ready_def initial_def toTestProject_def
        sample_def newTestProject_def memory_def store0_def testConnection_def)
  have l: "isLoading (ready\<lparr>isLoading := True\<rparr>)" by simp
  show ?thesis
    using busy_flag [of memory 17 18 19 store0 ready] busy_flag [of memory 17 18 19 store0 "ready\<lparr>isLoading := True\<rparr>"]
      n1 n2 l
    by blast
qed

section \<open>The insert message\<close>

lemma testConnection_read:
  "fst (getDocs fs w) = Inr docs \<Longrightarrow>
     fst (testConnection fs w) =
       [SetStatus testing, SetMessage ''Testing Firebase connection...'', Call GetDocs,
        SetStatus success, SetMessage (connectedMessage (length docs)),
        SetTestProjects (map toTestProject docs)]"
  by (cases "getDocs fs w") (simp add: testConnection_def)

lemma testConnection_unread:
  "fst (getDocs fs w) = Inl e \<Longrightarrow>
     fst (testConnection fs w) =
       [SetStatus testing, SetMessage ''Testing Firebase connection...'', Call GetDocs,
        SetStatus error, SetMessage (connectionFailedMessage e)]"
  by (cases "getDocs fs w") (simp add: testConnection_def)

lemma testConnection_world: "snd (testConnection fs w) = snd (getDocs fs w)"
  by (simp add: testConnection_def split: prod.splits sum.splits)

lemma connected_not_added: "connectedMessage n \<noteq> addedMessage i"
  by (simp add: connectedMessage_def addedMessage_def check_mark_def)

text \<open>
  C10. When the insert succeeds and the probe that follows it succeeds, the messages set
  are, in order, the adding text, the insert message with the new identifier, the
  in-progress text of the probe and the success message of the probe. The message left at
  the end is the last of these, which contains the number of documents, and it is not the
  insert message.
\<close>

theorem insert_message_overwritten:
  "fst (addDoc fs (newDocument now c u) w) = Inr i \<Longrightarrow>
   fst (getDocs fs (snd (addDoc fs (newDocument now c u) w))) = Inr docs \<Longrightarrow>
     messagesOf (fst (addTestData fs now c u w)) =
       [''Adding test project...'', addedMessage i, ''Testing Firebase connection...'',
        connectedMessage (length docs)] \<and>
     message (run s (fst (addTestData fs now c u w))) = connectedMessage (length docs) \<and>
     includes_str (message (run s (fst (addTestData fs now c u w)))) (show_nat (length docs)) \<and>
     message (run s (fst (addTestData fs now c u w))) \<noteq> addedMessage i"
proof -
  assume a: "fst (addDoc fs (newDocument now c u) w) = Inr i"
    and g: "fst (getDocs fs (snd (addDoc fs (newDocument now c u) w))) = Inr docs"
  obtain w1 where w1: "addDoc fs (newDocument now c u) w = (Inr i, w1)"
    using a by (cases "addDoc fs (newDocument now c u) w") simp
  with g have g1: "fst (getDocs fs w1) = Inr docs" by simp
  have tr: "fst (addTestData fs now c u w) =
      [SetIsLoading True, SetMessage ''Adding test project...'',
       Call (AddDoc (newDocument now c u)), SetMessage (addedMessage i),
       SetStatus testing, SetMessage ''Testing Firebase connection...'', Call GetDocs,
       SetStatus success, SetMessage (connectedMessage (length docs)),
       SetTestProjects (map toTestProject docs), SetIsLoading False]"
    by (simp add: addTestData_success [OF w1] testConnection_read [OF g1])
  show ?thesis
    by (simp add: tr connectedMessage_includes connected_not_added)
qed

text \<open>An insert into the empty store.\<close>

theorem insert_message_overwritten_witness:
  "messagesOf (fst (addTestData memory 17 18 19 store0)) =
     [''Adding test project...'', addedMessage ''doc0'', ''Testing Firebase connection...'',
      connectedMessage 1] \<and>
   message (run ready (fst (addTestData memory 17 18 19 store0))) = connectedMessage 1"
proof -
  have a: "fst (addDoc memory (newDocument 17 18 19) store0) = Inr ''doc0''"
    by (simp add: memory_def store0_def show_nat_0)
  have g: "fst (getDocs memory (snd (addDoc memory (newDocument 17 18 19) store0)))
      = Inr [\<lparr>doc_id = ''doc0'', doc_data = newDocument 17 18 19\<rparr>]"
    by (simp add: memory_def store0_def show_nat_0)
  show ?thesis
    using insert_message_overwritten [OF a g, of ready] by simp
qed

section \<open>Writes of the status\<close>

lemma deleteEach_quiet:
  assumes "deleteEach fs ps w = (r, tr, w')"
  shows "statusWrites tr = []" and "messagesOf tr = []" and "run s tr = s"
proof -
  from assms have "tr = map Call (callsOf tr)" by (rule deleteEach_only_calls)
  then show "statusWrites tr = []" and "messagesOf tr = []" and "run s tr = s"
    by (metis statusWrites_calls, metis messagesOf_calls, metis run_calls)
qed

lemma testConnection_statusWrites:
  "statusWrites (fst (testConnection fs w)) =
     [testing, case fst (getDocs fs w) of Inr docs \<Rightarrow> success | Inl e \<Rightarrow> error]"
  by (simp add: testConnection_def split: prod.splits sum.splits)

text \<open>
  C4. Only \<open>testConnection\<close> writes the status. A failed insert and a failed deletion
  write none and leave the status as it was; on their successful paths the two commands
  write exactly what the probe they end with writes; the subscription callbacks, the
  error callback among them, the effect and its cleanup write none.
\<close>

theorem status_written_by_probe_only:
  "(\<forall>e. fst (addDoc fs (newDocument now c u) w) = Inl e \<longrightarrow>
      statusWrites (fst (addTestData fs now c u w)) = [] \<and>
      status (run s (fst (addTestData fs now c u w))) = status s) \<and>
   (\<forall>i. fst (addDoc fs (newDocument now c u) w) = Inr i \<longrightarrow>
      statusWrites (fst (addTestData fs now c u w)) =
        statusWrites (fst (testConnection fs (snd (addDoc fs (newDocument now c u) w))))) \<and>
   (\<forall>e. fst (deleteEach fs (projectsToDelete s) w) = Some e \<longrightarrow>
      statusWrites (fst (clearTestData fs s w)) = [] \<and>
      status (run s (fst (clearTestData fs s w))) = status s) \<and>
   (fst (deleteEach fs (projectsToDelete s) w) = None \<longrightarrow>
      statusWrites (fst (clearTestData fs s w)) =
        statusWrites (fst (testConnection fs (snd (snd (deleteEach fs (projectsToDelete s) w)))))) \<and>
   statusWrites (deliver ev) = [] \<and>
   status (run s (deliver ev)) = status s \<and>
   statusWrites (fst (snd (effect fs s w))) = [] \<and>
   statusWrites (fst (snd (cleanup fs h w))) = []"
proof -
  have add_fail: "statusWrites (fst (addTestData fs now c u w)) = [] \<and>
      status (run s (fst (addTestData fs now c u w))) = status s"
    if "fst (addDoc fs (newDocument now c u) w) = Inl e" for e
  proof -
    from that obtain w1 where "addDoc fs (newDocument now c u) w = (Inl e, w1)"
      by (cases "addDoc fs (newDocument now c u) w") simp
    then show ?thesis by (simp add: addTestData_failure)
  qed
  have add_ok: "statusWrites (fst (addTestData fs now c u w)) =
        statusWrites (fst (testConnection fs (snd (addDoc fs (newDocument now c u) w))))"
    if "fst (addDoc fs (newDocument now c u) w) = Inr i" for i
  proof -
    from that obtain w1 where "addDoc fs (newDocument now c u) w = (Inr i, w1)"
      by (cases "addDoc fs (newDocument now c u) w") simp
    then show ?thesis by (simp add: addTestData_success)
  qed
  have clear_fail: "statusWrites (fst (clearTestData fs s w)) = [] \<and>
      status (run s (fst (clearTestData fs s w))) = status s"
    if "fst (deleteEach fs (projectsToDelete s) w) = Some e" for e
  proof -
    from that obtain dels w1 where d: "deleteEach fs (projectsToDelete s) w = (Some e, dels, w1)"
      by (cases "deleteEach fs (projectsToDelete s) w") simp
    show ?thesis
      by (simp add: clearTestData_failure [OF d] deleteEach_quiet [OF d])
  qed
  have clear_ok: "statusWrites (fst (clearTestData fs s w)) =
        statusWrites (fst (testConnection fs (snd (snd (deleteEach fs (projectsToDelete s) w)))))"
    if "fst (deleteEach fs (projectsToDelete s) w) = None"
  proof -
    from that obtain dels w1 where d: "deleteEach fs (projectsToDelete s) w = (None, dels, w1)"
      by (cases "deleteEach fs (projectsToDelete s) w") simp
    show ?thesis
      by (simp add: clearTestData_success [OF d] deleteEach_quiet [OF d] d)
  qed
  have ev: "statusWrites (deliver ev) = [] \<and> status (run s (deliver ev)) = status s"
    by (cases ev) simp_all
  have eff: "statusWrites (fst (snd (effect fs s w))) = []"
    by (simp add: effect_def testRealTime_def split: prod.splits sum.splits)
  have cl: "statusWrites (fst (snd (cleanup fs h w))) = []"
    by (simp add: cleanup_def split: option.splits prod.splits)
  show ?thesis
    using add_fail add_ok clear_fail clear_ok ev eff cl by blast
qed

lemma show_nat_Suc_0: "show_nat (Suc 0) = ''1''" by code_simp
lemma show_nat_5: "show_nat 5 = ''5''" by code_simp
lemma show_nat_6: "show_nat 6 = ''6''" by code_simp
lemma show_nat_7: "show_nat 7 = ''7''" by code_simp

lemma projectsToDelete_ready: "projectsToDelete ready = [toTestProject (sample ''a'' 5)]"
  by (simp add: projectsToDelete_def ready_def initial_def toTestProject_def sample_def
      newTestProject_def show_nat_5)

lemma id_sample: "id_opt (toTestProject (sample i n)) = Some i"
  by (simp add: toTestProject_def sample_def newTestProject_def)

text \<open>A failed insert, a refused deletion and a subscription error, each from a
  connected state.\<close>

theorem status_written_by_probe_only_witness:
  "statusWrites (fst (addTestData memory 17 18 19 (store0\<lparr>offline := True\<rparr>))) = [] \<and>
   status (run ready (fst (addTestData memory 17 18 19 (store0\<lparr>offline := True\<rparr>)))) = success \<and>
   statusWrites (fst (clearTestData memory ready (store0\<lparr>denied := [''a'']\<rparr>))) = [] \<and>
   status (run ready (fst (clearTestData memory ready (store0\<lparr>denied := [''a'']\<rparr>)))) = success \<and>
   status (run ready (deliver (ListenError (OtherValue ''lost'')))) = success"
proof -
  have a: "fst (addDoc memory (newDocument 17 18 19) (store0\<lparr>offline := True\<rparr>))
      = Inl (ErrorObject ''unavailable'')"
    by (simp add: memory_def store0_def)
  have d: "fst (deleteEach memory (projectsToDelete ready) (store0\<lparr>denied := [''a'']\<rparr>))
      = Some (ErrorObject ''permission-denied'')"
    by (simp add: projectsToDelete_ready id_sample memory_def store0_def)
  have s: "status ready = success" by (simp add: ready_def)
  show ?thesis
    using status_written_by_probe_only [of memory 17 18 19 "store0\<lparr>offline := True\<rparr>" ready
        "ListenError (OtherValue ''lost'')" None]
      status_written_by_probe_only [of memory 17 18 19 "store0\<lparr>denied := [''a'']\<rparr>" ready
        "ListenError (OtherValue ''lost'')" None] a d s
    by simp
qed

section \<open>Clearing\<close>

text \<open>
  C7. When no loaded project has a name containing \<open>Test Project\<close>, \<open>clearTestData\<close>
  calls \<open>deleteDoc\<close> not once: its only call to the collaborator is the read of the probe
  it still runs, after a completion message with the count 0, and the world it leaves is
  the one that read leaves.
\<close>

theorem clear_nothing_to_delete:
  "projectsToDelete s = [] \<Longrightarrow>
     clearTestData fs s w =
       ([SetIsLoading True, SetMessage ''Clearing test data...'', SetMessage (clearedMessage 0)] @
        fst (testConnection fs w) @ [SetIsLoading False], snd (getDocs fs w)) \<and>
     callsOf (fst (clearTestData fs s w)) = [GetDocs]"
  by (simp add: clearTestData_def case_prod_beta testConnection_calls testConnection_world)

text \<open>A store and a loaded list that hold one project that is not a sample.\<close>

theorem clear_nothing_to_delete_witness:
  "projectsToDelete (initial\<lparr>status := success, testProjects := [toTestProject (other ''b'')]\<rparr>) = [] \<and>
   callsOf (fst (clearTestData memory
      (initial\<lparr>status := success, testProjects := [toTestProject (other ''b'')]\<rparr>)
      (store0\<lparr>stored := [other ''b'']\<rparr>))) = [GetDocs] \<and>
   snd (clearTestData memory
      (initial\<lparr>status := success, testProjects := [toTestProject (other ''b'')]\<rparr>)
      (store0\<lparr>stored := [other ''b'']\<rparr>)) = store0\<lparr>stored := [other ''b'']\<rparr>"
proof -
  have h: "projectsToDelete (initial\<lparr>status := success, testProjects := [toTestProject (other ''b'')]\<rparr>) = []"
    by (simp add: projectsToDelete_def toTestProject_def other_def newTestProject_def)
  have g: "snd (getDocs memory (store0\<lparr>stored := [other ''b'']\<rparr>)) = store0\<lparr>stored := [other ''b'']\<rparr>"
    by (simp add: memory_def store0_def)
  note run = clear_nothing_to_delete [OF h, of memory "store0\<lparr>stored := [other ''b'']\<rparr>"]
  from run have c: "callsOf (fst (clearTestData memory
      (initial\<lparr>status := success, testProjects := [toTestProject (other ''b'')]\<rparr>)
      (store0\<lparr>stored := [other ''b'']\<rparr>))) = [GetDocs]"
    by (rule conjunct2)
  from run g have w: "snd (clearTestData memory
      (initial\<lparr>status := success, testProjects := [toTestProject (other ''b'')]\<rparr>)
      (store0\<lparr>stored := [other ''b'']\<rparr>)) = store0\<lparr>stored := [other ''b'']\<rparr>"
    by simp
  from h c w show ?thesis by blast
qed

subsection \<open>A failing deletion\<close>

lemma deleteEach_idsOf: "deleteEach fs ps w = deleteIds fs (idsOf ps) w"
  by (induction ps arbitrary: w) (simp_all split: option.splits prod.splits sum.splits)

lemma deleteIds_done:
  "deleteIds fs js w = (None, tr, w1) \<Longrightarrow> tr = map (Call \<circ> DeleteDoc) js"
  by (induction js arbitrary: w tr w1) (auto split: prod.splits sum.splits)

lemma deleteIds_append:
  "deleteIds fs js w = (None, tr, w1) \<Longrightarrow>
     deleteIds fs (js @ ks) w =
       (fst (deleteIds fs ks w1), tr @ fst (snd (deleteIds fs ks w1)), snd (snd (deleteIds fs ks w1)))"
  by (induction js arbitrary: w tr w1) (auto split: prod.splits sum.splits)

lemma deleteIds_fails_at:
  "fst (deleteDoc fs i w) = Inl e \<Longrightarrow>
     deleteIds fs (i # ks) w = (Some e, [Call (DeleteDoc i)], snd (deleteDoc fs i w))"
  by (cases "deleteDoc fs i w") simp

text \<open>
  C3. Let the matching projects that carry an identifier have the identifiers
  \<open>pre @ i # rest\<close>, so that \<open>i\<close> is the k-th of them for k = \<open>length pre + 1\<close>. If the
  deletions of \<open>pre\<close> go through and the deletion of \<open>i\<close> fails, then the calls made are
  exactly the k-1 deletions of \<open>pre\<close> followed by the failing one: nothing of \<open>rest\<close> is
  attempted and no probe is run. The message is the failure message with the description
  of the failure, no status is written, and the loaded projects stay as they were.
\<close>

theorem clear_aborts_at_first_failure:
  assumes "idsOf (projectsToDelete s) = pre @ i # rest"
    and "deleteIds fs pre w = (None, tr1, w1)"
    and "fst (deleteDoc fs i w1) = Inl e"
  shows "fst (clearTestData fs s w) =
           [SetIsLoading True, SetMessage ''Clearing test data...''] @
           map (Call \<circ> DeleteDoc) (pre @ [i]) @
           [SetMessage (clearFailedMessage e), SetIsLoading False] \<and>
         callsOf (fst (clearTestData fs s w)) = map DeleteDoc (pre @ [i]) \<and>
         GetDocs \<notin> set (callsOf (fst (clearTestData fs s w))) \<and>
         snd (clearTestData fs s w) = snd (deleteDoc fs i w1) \<and>
         message (run s (fst (clearTestData fs s w))) = clearFailedMessage e \<and>
         includes_str (message (run s (fst (clearTestData fs s w)))) (describe e) \<and>
         statusWrites (fst (clearTestData fs s w)) = [] \<and>
         status (run s (fst (clearTestData fs s w))) = status s \<and>
         testProjects (run s (fst (clearTestData fs s w))) = testProjects s"
proof -
  have tr1: "tr1 = map (Call \<circ> DeleteDoc) pre"
    using assms(2) by (rule deleteIds_done)
  have "deleteEach fs (projectsToDelete s) w = deleteIds fs (pre @ i # rest) w"
    by (simp add: deleteEach_idsOf assms(1))
  also have "\<dots> = (Some e, tr1 @ [Call (DeleteDoc i)], snd (deleteDoc fs i w1))"
    by (simp add: deleteIds_append [OF assms(2)] deleteIds_fails_at [OF assms(3)]
        del: deleteIds.simps)
  finally have d: "deleteEach fs (projectsToDelete s) w =
      (Some e, map (Call \<circ> DeleteDoc) (pre @ [i]), snd (deleteDoc fs i w1))"
    by (simp add: tr1)
  have c: "clearTestData fs s w =
      ([SetIsLoading True, SetMessage ''Clearing test data...''] @
       map (Call \<circ> DeleteDoc) (pre @ [i]) @
       [SetMessage (clearFailedMessage e), SetIsLoading False], snd (deleteDoc fs i w1))"
    by (rule clearTestData_failure [OF d])
  have q: "map (Call \<circ> DeleteDoc) (pre @ [i]) = map Call (map DeleteDoc (pre @ [i]))"
    by simp
  have n: "GetDocs \<notin> set (map DeleteDoc (pre @ [i]))"
    by auto
  have "includes_str (clearFailedMessage e) (describe e)"
    unfolding clearFailedMessage_def by (rule includes_last)
  with n show ?thesis
    unfolding c q by (simp del: map_append map_map set_map set_append)
qed

text \<open>Every run in which a deletion fails is of this kind.\<close>

lemma deleteIds_failure_shape:
  "fst (deleteIds fs js w) = Some e \<Longrightarrow>
     \<exists>pre i rest tr1 w1. js = pre @ i # rest \<and> deleteIds fs pre w = (None, tr1, w1) \<and>
       fst (deleteDoc fs i w1) = Inl e"
proof (induction js arbitrary: w)
  case Nil
  then show ?case by simp
next
  case (Cons j js)
  obtain r w' where d: "deleteDoc fs j w = (r, w')" by (cases "deleteDoc fs j w")
  show ?case
  proof (cases r)
    case (Inl e')
    with d Cons.prems have "e' = e" by simp
    with d Inl have "j # js = [] @ j # js \<and> deleteIds fs [] w = (None, [], w) \<and>
        fst (deleteDoc fs j w) = Inl e" by simp
    then show ?thesis by blast
  next
    case (Inr x)
    with d Cons.prems have "fst (deleteIds fs js w') = Some e"
      by (simp split: prod.splits)
    from Cons.IH [OF this] obtain pre i rest tr1 w1 where
      js: "js = pre @ i # rest" and p: "deleteIds fs pre w' = (None, tr1, w1)"
      and f: "fst (deleteDoc fs i w1) = Inl e" by blast
    from d Inr p have "deleteIds fs (j # pre) w = (None, Call (DeleteDoc j) # tr1, w1)" by simp
    with js f have "j # js = (j # pre) @ i # rest \<and>
        deleteIds fs (j # pre) w = (None, Call (DeleteDoc j) # tr1, w1) \<and>
        fst (deleteDoc fs i w1) = Inl e" by simp
    then show ?thesis by blast
  qed
qed

lemma every_failed_clear_has_a_first_failure:
  "fst (deleteEach fs (projectsToDelete s) w) = Some e \<Longrightarrow>
     \<exists>pre i rest tr1 w1. idsOf (projectsToDelete s) = pre @ i # rest \<and>
       deleteIds fs pre w = (None, tr1, w1) \<and> fst (deleteDoc fs i w1) = Inl e"
  using deleteIds_failure_shape [of fs "idsOf (projectsToDelete s)" w e]
  by (simp add: deleteEach_idsOf)

lemma idsOf_three: "idsOf (projectsToDelete three) = [''a''] @ ''c'' # [''d'']"
  by (simp add: projectsToDelete_def three_def initial_def toTestProject_def sample_def other_def
      newTestProject_def show_nat_5 show_nat_6 show_nat_7)

text \<open>The second of three samples cannot be deleted: one deletion is made, one fails,
  and the third sample is still stored.\<close>

theorem clear_aborts_at_first_failure_witness:
  "callsOf (fst (clearTestData memory three store3)) = [DeleteDoc ''a'', DeleteDoc ''c''] \<and>
   stored (snd (clearTestData memory three store3)) = [other ''b'', sample ''c'' 6, sample ''d'' 7] \<and>
   message (run three (fst (clearTestData memory three store3)))
     = clearFailedMessage (ErrorObject ''permission-denied'') \<and>
   status (run three (fst (clearTestData memory three store3))) = success \<and>
   testProjects (run three (fst (clearTestData memory three store3))) = testProjects three"
proof -
  have p: "deleteIds memory [''a''] store3 =
      (None, [Call (DeleteDoc ''a'')], store3\<lparr>stored := [other ''b'', sample ''c'' 6, sample ''d'' 7]\<rparr>)"
    by (simp add: memory_def store3_def store0_def sample_def other_def)
  have f: "fst (deleteDoc memory ''c'' (store3\<lparr>stored := [other ''b'', sample ''c'' 6, sample ''d'' 7]\<rparr>))
      = Inl (ErrorObject ''permission-denied'')"
    by (simp add: memory_def store3_def store0_def)
  have w: "snd (deleteDoc memory ''c'' (store3\<lparr>stored := [other ''b'', sample ''c'' 6, sample ''d'' 7]\<rparr>))
      = store3\<lparr>stored := [other ''b'', sample ''c'' 6, sample ''d'' 7]\<rparr>"
    by (simp add: memory_def store3_def store0_def)
  have s: "status three = success" by (simp add: three_def)
  show ?thesis
    using clear_aborts_at_first_failure [OF idsOf_three p f] w s by simp
qed

section \<open>The subscription\<close>

text \<open>
  C5. A snapshot sets \<open>realTimeStatus\<close> to \<open>connected\<close> and replaces the projects by the
  documents of the snapshot; an error sets it to \<open>disconnected\<close> and changes nothing
  else. Starting from \<open>rt_idle\<close>, the events snapshot A, snapshot B, error show the
  statuses idle, connected, connected, disconnected, and the projects at the end are those
  of B.
\<close>

theorem subscription_ticks:
  "run s (deliver (Snapshot docs)) = s\<lparr>realTimeStatus := connected, testProjects := map toTestProject docs\<rparr> \<and>
   run s (deliver (ListenError e)) = s\<lparr>realTimeStatus := disconnected\<rparr> \<and>
   (realTimeStatus s = rt_idle \<longrightarrow>
      map realTimeStatus (observe s [Snapshot A, Snapshot B, ListenError e])
        = [rt_idle, connected, connected, disconnected] \<and>
      testProjects (last (observe s [Snapshot A, Snapshot B, ListenError e])) = map toTestProject B)"
  by simp

text \<open>Two snapshots and an error after the first successful probe.\<close>

theorem subscription_ticks_witness:
  "realTimeStatus ready = rt_idle \<and>
   map realTimeStatus (observe ready
       [Snapshot [sample ''a'' 5], Snapshot [sample ''b'' 6, sample ''a'' 5], ListenError (OtherValue ''lost'')])
     = [rt_idle, connected, connected, disconnected] \<and>
   testProjects (last (observe ready
       [Snapshot [sample ''a'' 5], Snapshot [sample ''b'' 6, sample ''a'' 5], ListenError (OtherValue ''lost'')]))
     = map toTestProject [sample ''b'' 6, sample ''a'' 5]"
proof -
  have i: "realTimeStatus ready = rt_idle" by (simp add: ready_def initial_def)
  show ?thesis
    using i subscription_ticks [of ready "[sample ''a'' 5]" "OtherValue ''lost''"
        "[sample ''a'' 5]" "[sample ''b'' 6, sample ''a'' 5]"]
    by blast
qed

subsection \<open>Teardown\<close>

text \<open>
  The cleanup is not idempotent. Against the store, the effect of a connected state
  obtains the handle 0; the cleanup called twice then calls that handle twice, not once.
\<close>

theorem cleanup_twice_counterexample:
  "fst (effect memory ready store0) = Some 0 \<and>
   callsOf (fst (snd (snd (cleanupTwice memory (Some 0) (snd (snd (effect memory ready store0)))))))
     = [Unsubscribe 0, Unsubscribe 0] \<and>
   length (callsOf (fst (snd (snd (cleanupTwice memory (Some 0) (snd (snd (effect memory ready store0)))))))) \<noteq> 1"
  by (simp add: effect_def testRealTime_def cleanupTwice_def cleanup_def ready_def initial_def
      memory_def store0_def)

text \<open>
  C6, as the code has it. With no subscription established the cleanup makes no call and
  throws nothing, once or twice. With a handle it calls the handle once per invocation and
  throws what the handle throws, so two invocations call it twice. The effect leaves a
  handle only in a connected state whose \<open>onSnapshot\<close> returned one; the effect followed
  by one cleanup, which is how React runs them, releases that handle exactly once, and
  makes no call when there is none.
\<close>

theorem cleanup_once_per_call:
  "cleanup fs None w = (None, [], w) \<and>
   cleanupTwice fs None w = (None, None, [], w) \<and>
   cleanup fs (Some h) w = (fst (unsubscribeHandle fs h w), [Call (Unsubscribe h)], snd (unsubscribeHandle fs h w)) \<and>
   callsOf (fst (snd (snd (cleanupTwice fs (Some h) w)))) = [Unsubscribe h, Unsubscribe h] \<and>
   (status s \<noteq> success \<longrightarrow> effect fs s w = (None, [], w)) \<and>
   (\<forall>e. status s = success \<and> fst (onSnapshot fs w) = Inl e \<longrightarrow> fst (effect fs s w) = None) \<and>
   (\<forall>k. status s = success \<and> fst (onSnapshot fs w) = Inr k \<longrightarrow> fst (effect fs s w) = Some k) \<and>
   callsOf (fst (snd (cleanup fs (fst (effect fs s w)) (snd (snd (effect fs s w)))))) =
     (case fst (effect fs s w) of None \<Rightarrow> [] | Some k \<Rightarrow> [Unsubscribe k])"
  by (auto simp: cleanup_def cleanupTwice_def effect_def testRealTime_def case_prod_beta
      split: option.splits prod.splits sum.splits)

text \<open>The effect and one cleanup, before any probe and after a successful one.\<close>

theorem cleanup_once_per_call_witness:
  "effect memory initial store0 = (None, [], store0) \<and>
   cleanup memory (fst (effect memory initial store0)) store0 = (None, [], store0) \<and>
   fst (effect memory ready store0) = Some 0 \<and>
   callsOf (fst (snd (cleanup memory (fst (effect memory ready store0))
      (snd (snd (effect memory ready store0)))))) = [Unsubscribe 0]"
proof -
  have i: "status initial \<noteq> success" by (simp add: initial_def)
  have r: "status ready = success \<and> fst (onSnapshot memory store0) = Inr 0"
    by (simp add: ready_def memory_def store0_def)
  note a = cleanup_once_per_call [of memory store0 0 initial]
  note b = cleanup_once_per_call [of memory store0 0 ready]
  from a i have e0: "effect memory initial store0 = (None, [], store0)" by blast
  from a have c0: "cleanup memory None store0 = (None, [], store0)" by blast
  from b r have e1: "fst (effect memory ready store0) = Some 0" by blast
  from b have c1: "callsOf (fst (snd (cleanup memory (fst (effect memory ready store0))
      (snd (snd (effect memory ready store0)))))) =
     (case fst (effect memory ready store0) of None \<Rightarrow> [] | Some k \<Rightarrow> [Unsubscribe k])" by blast
  show ?thesis using e0 c0 e1 c1 by simp
qed

section \<open>The count in the completion message\<close>

text \<open>
  Deletions are requested for identified projects only, in order; a clear that completes
  has requested all of them. Their number is the number of matching projects when each
  of those has an identifier.
\<close>

lemma deleteIds_calls_prefix:
  "prefix (callsOf (fst (snd (deleteIds fs js w)))) (map DeleteDoc js)"
  by (induction js arbitrary: w) (simp_all add: case_prod_beta split: sum.splits)

lemma deletions_only_for_identified:
  "prefix (callsOf (fst (snd (deleteEach fs ps w)))) (map DeleteDoc (idsOf ps))"
  by (simp add: deleteEach_idsOf deleteIds_calls_prefix)

lemma callsOf_delete_calls: "callsOf (map (Call \<circ> DeleteDoc) js) = map DeleteDoc js"
  by (induction js) simp_all

lemma deletions_of_a_completed_clear:
  "deleteEach fs ps w = (None, tr, w1) \<Longrightarrow> callsOf tr = map DeleteDoc (idsOf ps)"
  using deleteIds_done [of fs "idsOf ps" w tr w1]
  by (simp add: deleteEach_idsOf callsOf_delete_calls)

lemma idsOf_length: "length (idsOf ps) \<le> length ps"
  by (induction ps) (auto split: option.splits)

lemma idsOf_all_identified:
  "(\<forall>p \<in> set ps. \<exists>i. id_opt p = Some i \<and> i \<noteq> []) \<Longrightarrow> length (idsOf ps) = length ps"
  by (induction ps) (auto split: option.splits)

text \<open>
  C8. The completion message counts the matching projects, not the deletions. A probe of
  a store holding one sample whose data has an empty \<open>id\<close> field loads one project with an
  empty identifier. Clearing then skips it, so the only call is the read of the probe, and
  still reports one cleared project: the message does not contain the number of
  deletions, 0.
\<close>

theorem cleared_count_includes_skipped:
  "testProjects (run initial (fst (testConnection memory (store0\<lparr>stored := [unkeyed]\<rparr>))))
     = testProjects unkeyedState \<and>
   projectsToDelete unkeyedState = [toTestProject unkeyed] \<and>
   id_opt (toTestProject unkeyed) = Some [] \<and>
   callsOf (fst (clearTestData memory unkeyedState (store0\<lparr>stored := [unkeyed]\<rparr>))) = [GetDocs] \<and>
   messagesOf (fst (clearTestData memory unkeyedState (store0\<lparr>stored := [unkeyed]\<rparr>)))
     = [''Clearing test data...'', check_mark @ '' Cleared 1 test projects'',
        ''Testing Firebase connection...'', connectedMessage 1] \<and>
   \<not> includes_str (check_mark @ '' Cleared 1 test projects'') ''0''"
  by (simp add: testConnection_def clearTestData_def projectsToDelete_def unkeyedState_def
      unkeyed_def toTestProject_def newTestProject_def initial_def memory_def store0_def
      clearedMessage_def check_mark_def show_nat_5 show_nat_Suc_0)

end
